theory Spec2Isabelle
  imports
    Complex_Main
    "HOL-Library.Multiset"
    "HOL-Library.Char_ord"
    "HOL-Library.List_Lexorder"
    "HOL-Library.Product_Lexorder"
begin

section \<open>The sample database\<close>

text \<open>
  \<^verbatim>\<open>main.py\<close> is a linear script: it opens \<^verbatim>\<open>data.sqlite\<close>, reads the table names,
  runs ten \<^verbatim>\<open>SELECT\<close> statements through \<^verbatim>\<open>pd.read_sql\<close>, binds each result to a
  module-level variable and closes the connection.

  The schema is not created by the script. The rows below carry the columns the ten
  statements mention. Key columns (\<^verbatim>\<open>officeCode\<close> of an office, \<^verbatim>\<open>employeeNumber\<close>,
  \<^verbatim>\<open>customerNumber\<close>, \<^verbatim>\<open>orderNumber\<close>, \<^verbatim>\<open>productCode\<close>) are never \<^verbatim>\<open>NULL\<close>; the two
  references that may be \<^verbatim>\<open>NULL\<close> (an employee's office, a customer's sales
  representative) are options. Text compares bytewise (SQLite's \<^verbatim>\<open>BINARY\<close> collation),
  which is the lexicographic order on \<^typ>\<open>string\<close>. Integers are unbounded and
  \<^verbatim>\<open>creditLimit\<close> is an exact rational: 64-bit overflow in \<^verbatim>\<open>SUM\<close> and floating-point
  rounding in \<^verbatim>\<open>AVG\<close> are outside the model. \<^verbatim>\<open>amount\<close> is text, as the comment of
  step 5 says.
\<close>

record offices_row =
  off_officeCode :: string
  off_city :: string
  off_state :: string
  off_country :: string

record employees_row =
  emp_employeeNumber :: int
  emp_firstName :: string
  emp_lastName :: string
  emp_officeCode :: "string option"

record customers_row =
  cust_customerNumber :: int
  cust_contactFirstName :: string
  cust_contactLastName :: string
  cust_phone :: string
  cust_salesRepEmployeeNumber :: "int option"
  cust_creditLimit :: rat

record orders_row =
  ord_orderNumber :: int
  ord_customerNumber :: int

record orderdetails_row =
  od_orderNumber :: int
  od_productCode :: string
  od_quantityOrdered :: int

record products_row =
  prod_productCode :: string
  prod_productName :: string

record payments_row =
  pay_customerNumber :: int
  pay_amount :: string
  pay_paymentDate :: string

text \<open>
  A database file holds the names of its tables (the rows of \<^verbatim>\<open>sqlite_master\<close> with
  \<^verbatim>\<open>type='table'\<close>) and the rows of the seven tables the script reads. A table whose
  name is not in \<open>master\<close> does not exist, whatever its row list holds.
\<close>

record database =
  master :: "string list"
  offices :: "offices_row list"
  employees :: "employees_row list"
  customers :: "customers_row list"
  orders :: "orders_row list"
  orderdetails :: "orderdetails_row list"
  products :: "products_row list"
  payments :: "payments_row list"

definition empty_database :: database where
  "empty_database =
     \<lparr>master = [], offices = [], employees = [], customers = [], orders = [],
      orderdetails = [], products = [], payments = []\<rparr>"

section \<open>Relational operators\<close>

text \<open>
  Inner joins are nested loops in the order of the \<^verbatim>\<open>FROM\<close> clause, written as list
  comprehensions in each query. A left join keeps a row without a partner, paired
  with \<open>None\<close>.
\<close>

definition left_join :: "'a list \<Rightarrow> 'b list \<Rightarrow> ('a \<Rightarrow> 'b \<Rightarrow> bool) \<Rightarrow> ('a \<times> 'b option) list" where
  "left_join xs ys on =
     concat (map (\<lambda>x. let ms = filter (on x) ys
                       in if ms = [] then [(x, None)] else map (\<lambda>y. (x, Some y)) ms) xs)"

text \<open>
  \<^verbatim>\<open>GROUP BY\<close>: one group per distinct key, the groups in ascending key order (SQLite
  sorts on the grouping columns), each group holding its rows in join order.
\<close>

definition group_by :: "('r \<Rightarrow> 'k::linorder) \<Rightarrow> 'r list \<Rightarrow> ('k \<times> 'r list) list" where
  "group_by key rs =
     map (\<lambda>k. (k, filter (\<lambda>r. key r = k) rs)) (sort (remdups (map key rs)))"

text \<open>
  \<^verbatim>\<open>ORDER BY\<close>: SQL leaves the order of rows with equal keys to the engine. SQLite's
  sorter is a merge sort that keeps such rows in the order the query produced them;
  the model follows it with a stable sort.
\<close>

definition order_by :: "('r \<Rightarrow> 'k::linorder) \<Rightarrow> 'r list \<Rightarrow> 'r list" where
  "order_by key rs = sort_key key rs"

definition order_by_desc :: "('r \<Rightarrow> 'k::linorder) \<Rightarrow> 'r list \<Rightarrow> 'r list" where
  "order_by_desc key rs = rev (sort_key key (rev rs))"

text \<open>\<^verbatim>\<open>AVG\<close> of a group; \<^verbatim>\<open>NULL\<close> on no rows.\<close>

definition avg :: "rat list \<Rightarrow> rat option" where
  "avg xs = (if xs = [] then None else Some (sum_list xs / of_nat (length xs)))"

text \<open>\<^verbatim>\<open>COUNT(DISTINCT x)\<close>.\<close>

definition count_distinct :: "'a list \<Rightarrow> nat" where
  "count_distinct xs = length (remdups xs)"

section \<open>The ten queries\<close>

text \<open>Step 1: \<^verbatim>\<open>employees e JOIN offices o ON e.officeCode = o.officeCode WHERE o.city = 'Boston'\<close>.\<close>

definition sql_boston :: "database \<Rightarrow> (string \<times> string) list" where
  "sql_boston db =
     [(emp_firstName e, emp_lastName e).
        e \<leftarrow> employees db, off \<leftarrow> offices db,
        emp_officeCode e = Some (off_officeCode off), off_city off = ''Boston'']"

text \<open>
  Step 2: \<^verbatim>\<open>offices o LEFT JOIN employees e ON o.officeCode = e.officeCode
  WHERE e.employeeNumber IS NULL\<close>; columns officeCode, city, state, country.
\<close>

definition sql_zero_emp :: "database \<Rightarrow> (string \<times> string \<times> string \<times> string) list" where
  "sql_zero_emp db =
     [(off_officeCode off, off_city off, off_state off, off_country off).
        (off, e) \<leftarrow> left_join (offices db) (employees db)
                    (\<lambda>off e. Some (off_officeCode off) = emp_officeCode e),
        map_option emp_employeeNumber e = None]"

text \<open>
  Step 3: \<^verbatim>\<open>employees e LEFT JOIN offices o ON e.officeCode = o.officeCode
  ORDER BY e.firstName, e.lastName\<close>; columns firstName, lastName, city, state.
\<close>

definition sql_employee :: "database \<Rightarrow> (string \<times> string \<times> string option \<times> string option) list" where
  "sql_employee db =
     map (\<lambda>(e, off). (emp_firstName e, emp_lastName e, map_option off_city off, map_option off_state off))
       (order_by (\<lambda>(e, off). (emp_firstName e, emp_lastName e))
          (left_join (employees db) (offices db)
             (\<lambda>e off. emp_officeCode e = Some (off_officeCode off))))"

text \<open>
  Step 4: \<^verbatim>\<open>customers c LEFT JOIN orders o ON c.customerNumber = o.customerNumber
  WHERE o.orderNumber IS NULL ORDER BY c.contactLastName\<close>; columns contactFirstName,
  contactLastName, phone, salesRepEmployeeNumber.
\<close>

definition sql_contacts :: "database \<Rightarrow> (string \<times> string \<times> string \<times> int option) list" where
  "sql_contacts db =
     map (\<lambda>c. (cust_contactFirstName c, cust_contactLastName c, cust_phone c,
                cust_salesRepEmployeeNumber c))
       (order_by cust_contactLastName
          [c. (c, ordr) \<leftarrow> left_join (customers db) (orders db)
                          (\<lambda>c ordr. cust_customerNumber c = ord_customerNumber ordr),
              map_option ord_orderNumber ordr = None])"

text \<open>
  Step 5: \<^verbatim>\<open>customers c INNER JOIN payments p ON c.customerNumber = p.customerNumber
  ORDER BY CAST(p.amount AS REAL) DESC\<close>; columns contactFirstName, contactLastName,
  amount, paymentDate. The conversion of the text to a number is the engine's; it is
  the parameter \<open>cast\<close>, into any linear order.
\<close>

definition payment_join :: "database \<Rightarrow> (customers_row \<times> payments_row) list" where
  "payment_join db =
     [(c, p). c \<leftarrow> customers db, p \<leftarrow> payments db,
              cust_customerNumber c = pay_customerNumber p]"

definition payment_cols :: "customers_row \<times> payments_row \<Rightarrow> string \<times> string \<times> string \<times> string" where
  "payment_cols = (\<lambda>(c, p). (cust_contactFirstName c, cust_contactLastName c,
                              pay_amount p, pay_paymentDate p))"

definition sql_payment :: "(string \<Rightarrow> 'n::linorder) \<Rightarrow> database \<Rightarrow> (string \<times> string \<times> string \<times> string) list" where
  "sql_payment cast db =
     map payment_cols (order_by_desc (\<lambda>(c, p). cast (pay_amount p)) (payment_join db))"

text \<open>
  Step 6: \<^verbatim>\<open>employees e JOIN customers c ON e.employeeNumber = c.salesRepEmployeeNumber
  GROUP BY e.employeeNumber, e.firstName, e.lastName HAVING AVG(c.creditLimit) > 90000
  ORDER BY num_customers DESC LIMIT 4\<close>; columns employeeNumber, firstName, lastName,
  num_customers = \<^verbatim>\<open>COUNT(c.customerNumber)\<close>.
\<close>

definition emp_key :: "employees_row \<Rightarrow> int \<times> string \<times> string" where
  "emp_key e = (emp_employeeNumber e, emp_firstName e, emp_lastName e)"

definition credit_join :: "database \<Rightarrow> (employees_row \<times> customers_row) list" where
  "credit_join db =
     [(e, c). e \<leftarrow> employees db, c \<leftarrow> customers db,
              Some (emp_employeeNumber e) = cust_salesRepEmployeeNumber c]"

definition credit_having :: "(employees_row \<times> customers_row) list \<Rightarrow> bool" where
  "credit_having g =
     (case avg (map (\<lambda>(e, c). cust_creditLimit c) g) of
        None \<Rightarrow> False
      | Some a \<Rightarrow> a > 90000)"

definition credit_groups :: "database \<Rightarrow> ((int \<times> string \<times> string) \<times> nat) list" where
  "credit_groups db =
     [(k, length g). (k, g) \<leftarrow> group_by (\<lambda>(e, c). emp_key e) (credit_join db),
                     credit_having g]"

definition sql_credit :: "database \<Rightarrow> ((int \<times> string \<times> string) \<times> nat) list" where
  "sql_credit db = take 4 (order_by_desc snd (credit_groups db))"

text \<open>
  Step 7: \<^verbatim>\<open>products p JOIN orderdetails o ON p.productCode = o.productCode
  GROUP BY p.productName ORDER BY totalunits DESC\<close>; columns productName,
  numorders = \<^verbatim>\<open>COUNT(o.productCode)\<close>, totalunits = \<^verbatim>\<open>SUM(o.quantityOrdered)\<close>.
\<close>

definition product_sold_join :: "database \<Rightarrow> (products_row \<times> orderdetails_row) list" where
  "product_sold_join db =
     [(p, od). p \<leftarrow> products db, od \<leftarrow> orderdetails db,
               prod_productCode p = od_productCode od]"

definition sql_product_sold :: "database \<Rightarrow> (string \<times> nat \<times> int) list" where
  "sql_product_sold db =
     order_by_desc (\<lambda>(name, numorders, totalunits). totalunits)
       [(name, length g, sum_list (map (\<lambda>(p, od). od_quantityOrdered od) g)).
          (name, g) \<leftarrow> group_by (\<lambda>(p, od). prod_productName p) (product_sold_join db)]"

text \<open>
  Step 8: \<^verbatim>\<open>products p JOIN orderdetails od ON p.productCode = od.productCode
  JOIN orders o ON od.orderNumber = o.orderNumber GROUP BY p.productName, p.productCode
  ORDER BY numpurchasers DESC\<close>; columns productName, productCode,
  numpurchasers = \<^verbatim>\<open>COUNT(DISTINCT o.customerNumber)\<close>.
\<close>

definition sql_total_customers :: "database \<Rightarrow> (string \<times> string \<times> nat) list" where
  "sql_total_customers db =
     order_by_desc (\<lambda>(name, code, numpurchasers). numpurchasers)
       [(name, code, count_distinct (map (\<lambda>(p, od, ordr). ord_customerNumber ordr) g)).
          ((name, code), g) \<leftarrow>
             group_by (\<lambda>(p, od, ordr). (prod_productName p, prod_productCode p))
               [(p, od, ordr). p \<leftarrow> products db, od \<leftarrow> orderdetails db,
                            prod_productCode p = od_productCode od,
                            ordr \<leftarrow> orders db, od_orderNumber od = ord_orderNumber ordr]]"

text \<open>
  Step 9: \<^verbatim>\<open>offices o JOIN employees e ON o.officeCode = e.officeCode
  JOIN customers c ON e.employeeNumber = c.salesRepEmployeeNumber
  GROUP BY o.officeCode, o.city\<close>; columns officeCode, city,
  n_customers = \<^verbatim>\<open>COUNT(c.customerNumber)\<close>. There is no \<^verbatim>\<open>ORDER BY\<close>: the rows come
  in group order.
\<close>

definition sql_customers :: "database \<Rightarrow> (string \<times> string \<times> nat) list" where
  "sql_customers db =
     [(code, city, length g).
        ((code, city), g) \<leftarrow>
           group_by (\<lambda>(off, e, c). (off_officeCode off, off_city off))
             [(off, e, c). off \<leftarrow> offices db, e \<leftarrow> employees db,
                         Some (off_officeCode off) = emp_officeCode e,
                         c \<leftarrow> customers db,
                         Some (emp_employeeNumber e) = cust_salesRepEmployeeNumber c]]"

text \<open>
  Step 10, the common table expression: \<^verbatim>\<open>orderdetails od JOIN orders o ON
  od.orderNumber = o.orderNumber GROUP BY od.productCode
  HAVING COUNT(DISTINCT o.customerNumber) < 20\<close>.
\<close>

definition detail_orders :: "database \<Rightarrow> (orderdetails_row \<times> orders_row) list" where
  "detail_orders db =
     [(od, ordr). od \<leftarrow> orderdetails db, ordr \<leftarrow> orders db,
               od_orderNumber od = ord_orderNumber ordr]"

definition low_demand_products :: "database \<Rightarrow> string list" where
  "low_demand_products db =
     [code. (code, g) \<leftarrow> group_by (\<lambda>(od, ordr). od_productCode od) (detail_orders db),
            count_distinct (map (\<lambda>(od, ordr). ord_customerNumber ordr) g) < 20]"

text \<open>
  Step 10, the main statement: \<^verbatim>\<open>SELECT DISTINCT\<close> employeeNumber, firstName, lastName,
  city, officeCode over \<^verbatim>\<open>employees e JOIN offices of JOIN customers c JOIN orders o
  JOIN orderdetails od\<close> with \<^verbatim>\<open>od.productCode IN (SELECT productCode FROM
  low_demand_products)\<close>, \<^verbatim>\<open>ORDER BY e.lastName, e.firstName\<close>.
\<close>

definition sql_under_20 :: "database \<Rightarrow> (int \<times> string \<times> string \<times> string \<times> string) list" where
  "sql_under_20 db =
     order_by (\<lambda>(n, first, last, city, code). (last, first))
       (remdups
          [(emp_employeeNumber e, emp_firstName e, emp_lastName e, off_city ofc, off_officeCode ofc).
             e \<leftarrow> employees db, ofc \<leftarrow> offices db,
             emp_officeCode e = Some (off_officeCode ofc),
             c \<leftarrow> customers db,
             Some (emp_employeeNumber e) = cust_salesRepEmployeeNumber c,
             ordr \<leftarrow> orders db, cust_customerNumber c = ord_customerNumber ordr,
             od \<leftarrow> orderdetails db, ord_orderNumber ordr = od_orderNumber od,
             od_productCode od \<in> set (low_demand_products db)])"

section \<open>Results as data frames\<close>

text \<open>
  \<^verbatim>\<open>pd.read_sql\<close> returns a \<^verbatim>\<open>DataFrame\<close>: the column names of the select list and the
  rows, each a list of cells, in the order the statement gives them.
\<close>

datatype sql_value = SqlNull | SqlInt int | SqlText string

record dataframe =
  df_columns :: "string list"
  df_rows :: "sql_value list list"

definition text_or_null :: "string option \<Rightarrow> sql_value" where
  "text_or_null v = (case v of None \<Rightarrow> SqlNull | Some t \<Rightarrow> SqlText t)"

definition int_or_null :: "int option \<Rightarrow> sql_value" where
  "int_or_null v = (case v of None \<Rightarrow> SqlNull | Some i \<Rightarrow> SqlInt i)"

text \<open>The ten variables the script binds, in source order.\<close>

datatype df_name =
    Df_boston | Df_zero_emp | Df_employee | Df_contacts | Df_payment
  | Df_credit | Df_product_sold | Df_total_customers | Df_customers | Df_under_20

definition all_steps :: "df_name list" where
  "all_steps =
     [Df_boston, Df_zero_emp, Df_employee, Df_contacts, Df_payment,
      Df_credit, Df_product_sold, Df_total_customers, Df_customers, Df_under_20]"

text \<open>The tables each statement names, in the order it names them.\<close>

fun tables_of :: "df_name \<Rightarrow> string list" where
  "tables_of Df_boston = [''employees'', ''offices'']"
| "tables_of Df_zero_emp = [''offices'', ''employees'']"
| "tables_of Df_employee = [''employees'', ''offices'']"
| "tables_of Df_contacts = [''customers'', ''orders'']"
| "tables_of Df_payment = [''customers'', ''payments'']"
| "tables_of Df_credit = [''employees'', ''customers'']"
| "tables_of Df_product_sold = [''products'', ''orderdetails'']"
| "tables_of Df_total_customers = [''products'', ''orderdetails'', ''orders'']"
| "tables_of Df_customers = [''offices'', ''employees'', ''customers'']"
| "tables_of Df_under_20 = [''employees'', ''offices'', ''customers'', ''orders'', ''orderdetails'']"

fun frame :: "(string \<Rightarrow> 'n::linorder) \<Rightarrow> df_name \<Rightarrow> database \<Rightarrow> dataframe" where
  "frame cast Df_boston db =
     \<lparr>df_columns = [''firstName'', ''lastName''],
      df_rows = map (\<lambda>(f, l). [SqlText f, SqlText l]) (sql_boston db)\<rparr>"
| "frame cast Df_zero_emp db =
     \<lparr>df_columns = [''officeCode'', ''city'', ''state'', ''country''],
      df_rows = map (\<lambda>(code, city, st, country).
                       [SqlText code, SqlText city, SqlText st, SqlText country])
                  (sql_zero_emp db)\<rparr>"
| "frame cast Df_employee db =
     \<lparr>df_columns = [''firstName'', ''lastName'', ''city'', ''state''],
      df_rows = map (\<lambda>(f, l, city, st).
                       [SqlText f, SqlText l, text_or_null city, text_or_null st])
                  (sql_employee db)\<rparr>"
| "frame cast Df_contacts db =
     \<lparr>df_columns = [''contactFirstName'', ''contactLastName'', ''phone'',
                    ''salesRepEmployeeNumber''],
      df_rows = map (\<lambda>(f, l, phone, rep). [SqlText f, SqlText l, SqlText phone, int_or_null rep])
                  (sql_contacts db)\<rparr>"
| "frame cast Df_payment db =
     \<lparr>df_columns = [''contactFirstName'', ''contactLastName'', ''amount'', ''paymentDate''],
      df_rows = map (\<lambda>(f, l, amount, date). [SqlText f, SqlText l, SqlText amount, SqlText date])
                  (sql_payment cast db)\<rparr>"
| "frame cast Df_credit db =
     \<lparr>df_columns = [''employeeNumber'', ''firstName'', ''lastName'', ''num_customers''],
      df_rows = map (\<lambda>((n, f, l), k). [SqlInt n, SqlText f, SqlText l, SqlInt (int k)])
                  (sql_credit db)\<rparr>"
| "frame cast Df_product_sold db =
     \<lparr>df_columns = [''productName'', ''numorders'', ''totalunits''],
      df_rows = map (\<lambda>(name, k, units). [SqlText name, SqlInt (int k), SqlInt units])
                  (sql_product_sold db)\<rparr>"
| "frame cast Df_total_customers db =
     \<lparr>df_columns = [''productName'', ''productCode'', ''numpurchasers''],
      df_rows = map (\<lambda>(name, code, k). [SqlText name, SqlText code, SqlInt (int k)])
                  (sql_total_customers db)\<rparr>"
| "frame cast Df_customers db =
     \<lparr>df_columns = [''officeCode'', ''city'', ''n_customers''],
      df_rows = map (\<lambda>(code, city, k). [SqlText code, SqlText city, SqlInt (int k)])
                  (sql_customers db)\<rparr>"
| "frame cast Df_under_20 db =
     \<lparr>df_columns = [''employeeNumber'', ''firstName'', ''lastName'', ''city'', ''officeCode''],
      df_rows = map (\<lambda>(n, f, l, city, code).
                       [SqlInt n, SqlText f, SqlText l, SqlText city, SqlText code])
                  (sql_under_20 db)\<rparr>"

section \<open>The script\<close>

text \<open>
  Exceptions of the libraries the script calls: \<^verbatim>\<open>sqlite3.OperationalError\<close> from
  \<^verbatim>\<open>sqlite3.connect\<close>, \<^verbatim>\<open>pandas.errors.DatabaseError\<close> from a statement SQLite rejects,
  \<^verbatim>\<open>sqlite3.ProgrammingError\<close> from a closed connection, and Python's \<^verbatim>\<open>NameError\<close>.
  The script defines no exception of its own and has no \<^verbatim>\<open>try\<close>.
\<close>

datatype error =
    OperationalError string
  | DatabaseError string
  | ProgrammingError string
  | NameError string

text \<open>
  The working directory: its files by name, and whether a file can be created in it.
  A file is a database, or cannot be opened.
\<close>

datatype fs_file = Unreadable | Sqlite_file database

record environment =
  files :: "string \<rightharpoonup> fs_file"
  cwd_writable :: bool

text \<open>
  \<^verbatim>\<open>sqlite3.connect(path)\<close> opens read-write and creates: a missing file becomes an
  empty database. Only a file that cannot be opened or created raises.
\<close>

definition sqlite3_connect :: "string \<Rightarrow> environment \<Rightarrow> error + (database \<times> environment)" where
  "sqlite3_connect path env =
     (case files env path of
        None \<Rightarrow>
          if cwd_writable env
          then Inr (empty_database,
                    env\<lparr>files := (files env)(path \<mapsto> Sqlite_file empty_database)\<rparr>)
          else Inl (OperationalError ''unable to open database file'')
      | Some Unreadable \<Rightarrow> Inl (OperationalError ''unable to open database file'')
      | Some (Sqlite_file db) \<Rightarrow> Inr (db, env))"

text \<open>
  The module's state: the connection \<^verbatim>\<open>conn\<close> (open or closed, and the database behind
  it), what was printed, and the variables \<^verbatim>\<open>df_tables\<close> and \<^verbatim>\<open>df_boston\<close> to
  \<^verbatim>\<open>df_under_20\<close> (unbound until assigned).
\<close>

record py_state =
  conn_open :: bool
  conn_db :: database
  stdout :: "string list list"
  df_tables :: "string list option"
  dfs :: "df_name \<rightharpoonup> dataframe"

definition initial_state :: "database \<Rightarrow> py_state" where
  "initial_state db =
     \<lparr>conn_open = True, conn_db = db, stdout = [], df_tables = None, dfs = Map.empty\<rparr>"

text \<open>A statement fails on the first table it names that the database does not have.\<close>

definition query :: "(string \<Rightarrow> 'n::linorder) \<Rightarrow> df_name \<Rightarrow> database \<Rightarrow> error + dataframe" where
  "query cast n db =
     (case find (\<lambda>t. t \<notin> set (master db)) (tables_of n) of
        Some t \<Rightarrow> Inl (DatabaseError (''no such table: '' @ t))
      | None \<Rightarrow> Inr (frame cast n db))"

definition read_sql :: "(database \<Rightarrow> error + 'a) \<Rightarrow> py_state \<Rightarrow> error + 'a" where
  "read_sql q s =
     (if conn_open s then q (conn_db s)
      else Inl (ProgrammingError ''Cannot operate on a closed database.''))"

text \<open>Line 13: \<^verbatim>\<open>pd.read_sql("SELECT * FROM sqlite_master", conn)\<close>, the result dropped.\<close>

definition stmt_master :: "py_state \<Rightarrow> error + py_state" where
  "stmt_master s =
     (case read_sql (\<lambda>db. Inr (master db)) s of Inl e \<Rightarrow> Inl e | Inr _ \<Rightarrow> Inr s)"

text \<open>Lines 17 to 21: \<^verbatim>\<open>df_tables = pd.read_sql(...)\<close> and \<^verbatim>\<open>print(df_tables)\<close>.\<close>

definition stmt_tables :: "py_state \<Rightarrow> error + py_state" where
  "stmt_tables s =
     (case read_sql (\<lambda>db. Inr (master db)) s of
        Inl e \<Rightarrow> Inl e
      | Inr t \<Rightarrow> Inr (s\<lparr>df_tables := Some t\<rparr>))"

definition stmt_print :: "py_state \<Rightarrow> error + py_state" where
  "stmt_print s =
     (case df_tables s of
        None \<Rightarrow> Inl (NameError ''df_tables'')
      | Some t \<Rightarrow> Inr (s\<lparr>stdout := stdout s @ [t]\<rparr>))"

text \<open>Steps 1 to 10: \<^verbatim>\<open>df_... = pd.read_sql("""...""", conn)\<close>.\<close>

definition step :: "(string \<Rightarrow> 'n::linorder) \<Rightarrow> df_name \<Rightarrow> py_state \<Rightarrow> error + py_state" where
  "step cast n s =
     (case read_sql (query cast n) s of
        Inl e \<Rightarrow> Inl e
      | Inr t \<Rightarrow> Inr (s\<lparr>dfs := (dfs s)(n \<mapsto> t)\<rparr>))"

text \<open>Line 239: \<^verbatim>\<open>conn.close()\<close>.\<close>

definition stmt_close :: "py_state \<Rightarrow> error + py_state" where
  "stmt_close s = Inr (s\<lparr>conn_open := False\<rparr>)"

text \<open>
  Statements run in sequence; an exception is not caught anywhere, so the first one
  ends the run and leaves the state as it was when it was raised.
\<close>

fun exec :: "(py_state \<Rightarrow> error + py_state) list \<Rightarrow> py_state \<Rightarrow> error option \<times> py_state" where
  "exec [] s = (None, s)"
| "exec (c # cs) s = (case c s of Inl e \<Rightarrow> (Some e, s) | Inr s' \<Rightarrow> exec cs s')"

definition run_steps :: "(string \<Rightarrow> 'n::linorder) \<Rightarrow> df_name list \<Rightarrow> py_state \<Rightarrow> error option \<times> py_state" where
  "run_steps cast ns s = exec (map (step cast) ns) s"

definition script :: "(string \<Rightarrow> 'n::linorder) \<Rightarrow> (py_state \<Rightarrow> error + py_state) list" where
  "script cast =
     [stmt_master, stmt_tables, stmt_print] @ map (step cast) all_steps @ [stmt_close]"

text \<open>
  A run of the program: the command line and the process environment are there to be
  read, and the script reads neither. The outcome is the uncaught exception if any, the
  module state at the end (none when \<^verbatim>\<open>connect\<close> raised), and the directory.
\<close>

record outcome =
  raised :: "error option"
  final :: "py_state option"
  env_after :: environment

definition main :: "(string \<Rightarrow> 'n::linorder) \<Rightarrow> string list \<Rightarrow> (string \<rightharpoonup> string) \<Rightarrow> environment \<Rightarrow> outcome" where
  "main cast argv environ env =
     (case sqlite3_connect ''data.sqlite'' env of
        Inl e \<Rightarrow> \<lparr>raised = Some e, final = None, env_after = env\<rparr>
      | Inr (db, env') \<Rightarrow>
          (case exec (script cast) (initial_state db) of
             (r, s) \<Rightarrow> \<lparr>raised = r, final = Some s, env_after = env'\<rparr>))"

section \<open>Notions used to state the properties\<close>

text \<open>Every step in \<open>ns\<close> can run: the connection is open and no table it names is missing.\<close>

definition steps_ok :: "df_name list \<Rightarrow> py_state \<Rightarrow> bool" where
  "steps_ok ns s \<longleftrightarrow> conn_open s \<and> (\<forall>n\<in>set ns. find (\<lambda>t. t \<notin> set (master (conn_db s))) (tables_of n) = None)"

text \<open>The script without its last line.\<close>

definition queries :: "(string \<Rightarrow> 'n::linorder) \<Rightarrow> (py_state \<Rightarrow> error + py_state) list" where
  "queries cast = [stmt_master, stmt_tables, stmt_print] @ map (step cast) all_steps"


text \<open>
  The customers who purchased a product: those of the orders that have an order detail
  naming it.
\<close>

definition purchasers :: "database \<Rightarrow> string \<Rightarrow> int set" where
  "purchasers db code =
     set [ord_customerNumber ordr. (od, ordr) \<leftarrow> detail_orders db, od_productCode od = code]"




text \<open>The order details that reference a product code.\<close>

definition details_of :: "database \<Rightarrow> string \<Rightarrow> orderdetails_row list" where
  "details_of db code = filter (\<lambda>od. code = od_productCode od) (orderdetails db)"

section \<open>Fixtures\<close>

text \<open>
  A conversion for fixtures whose amounts are unsigned whole numbers: the value of the
  leading decimal digits, as \<^verbatim>\<open>CAST(... AS REAL)\<close> gives for such text.
\<close>

fun digit_prefix :: "string \<Rightarrow> nat \<Rightarrow> nat" where
  "digit_prefix [] acc = acc"
| "digit_prefix (c # cs) acc =
     (if CHR ''0'' \<le> c \<and> c \<le> CHR ''9''
      then digit_prefix cs (10 * acc + (of_char c - 48))
      else acc)"

definition cast_whole :: "string \<Rightarrow> nat" where
  "cast_whole t = digit_prefix t 0"

definition all_tables :: "string list" where
  "all_tables = [''offices'', ''employees'', ''customers'', ''orders'', ''orderdetails'',
                 ''products'', ''payments'']"

definition mk_employee :: "int \<Rightarrow> string \<Rightarrow> string option \<Rightarrow> employees_row" where
  "mk_employee n first code =
     \<lparr>emp_employeeNumber = n, emp_firstName = first, emp_lastName = ''Roe'',
      emp_officeCode = code\<rparr>"

definition mk_customer :: "int \<Rightarrow> int option \<Rightarrow> rat \<Rightarrow> customers_row" where
  "mk_customer n rep limit =
     \<lparr>cust_customerNumber = n, cust_contactFirstName = ''Ann'', cust_contactLastName = ''Lee'',
      cust_phone = ''555'', cust_salesRepEmployeeNumber = rep, cust_creditLimit = limit\<rparr>"

text \<open>Directories: no file at all; a file that cannot be opened, in a directory that
  cannot be written; a database without the \<^verbatim>\<open>payments\<close> table, alone and beside a second
  file.\<close>

definition fresh_directory :: environment where
  "fresh_directory = \<lparr>files = Map.empty, cwd_writable = True\<rparr>"

definition locked_directory :: environment where
  "locked_directory = \<lparr>files = [''data.sqlite'' \<mapsto> Unreadable], cwd_writable = False\<rparr>"

definition db_without_payments :: database where
  "db_without_payments =
     empty_database\<lparr>master := [''offices'', ''employees'', ''customers'', ''orders'',
                                ''orderdetails'', ''products'']\<rparr>"

definition dir_without_payments :: environment where
  "dir_without_payments =
     \<lparr>files = [''data.sqlite'' \<mapsto> Sqlite_file db_without_payments], cwd_writable = True\<rparr>"


text \<open>Three offices, of which only Boston has employees; one employee has no office.\<close>

definition offices_fixture :: database where
  "offices_fixture = empty_database
     \<lparr>master := all_tables,
      offices := [\<lparr>off_officeCode = ''1'', off_city = ''Boston'', off_state = ''MA'', off_country = ''USA''\<rparr>,
                  \<lparr>off_officeCode = ''2'', off_city = ''Paris'', off_state = '''', off_country = ''France''\<rparr>,
                  \<lparr>off_officeCode = ''3'', off_city = ''Tokyo'', off_state = '''', off_country = ''Japan''\<rparr>],
      employees := [mk_employee 1 ''Al'' (Some ''1''), mk_employee 2 ''Bo'' (Some ''1''),
                    mk_employee 3 ''Cy'' None]\<rparr>"

definition dir_with_offices :: environment where
  "dir_with_offices =
     \<lparr>files = [''data.sqlite'' \<mapsto> Sqlite_file offices_fixture], cwd_writable = True\<rparr>"



text \<open>
  Twenty customers with one order each. Product \<^verbatim>\<open>S10\<close> is on all twenty orders,
  product \<^verbatim>\<open>S20\<close> on two.
\<close>

definition demand_fixture :: database where
  "demand_fixture = empty_database
     \<lparr>master := all_tables,
      offices := [\<lparr>off_officeCode = ''1'', off_city = ''Boston'', off_state = ''MA'',
                   off_country = ''USA''\<rparr>],
      employees := [mk_employee 1 ''Al'' (Some ''1'')],
      customers := map (\<lambda>i. mk_customer i (Some 1) 1000) [1..20],
      orders := map (\<lambda>i. \<lparr>ord_orderNumber = 100 + i, ord_customerNumber = i\<rparr>) [1..20],
      orderdetails :=
        map (\<lambda>i. \<lparr>od_orderNumber = 100 + i, od_productCode = ''S10'', od_quantityOrdered = 1\<rparr>) [1..20]
        @ [\<lparr>od_orderNumber = 101, od_productCode = ''S20'', od_quantityOrdered = 2\<rparr>,
           \<lparr>od_orderNumber = 102, od_productCode = ''S20'', od_quantityOrdered = 2\<rparr>]\<rparr>"

definition under_20_state :: py_state where
  "under_20_state =
     (initial_state demand_fixture)
       \<lparr>dfs := [Df_under_20 \<mapsto> frame cast_whole Df_under_20 demand_fixture]\<rparr>"

text \<open>Two products with different codes and the same name, one order detail each.\<close>

definition same_name_fixture :: database where
  "same_name_fixture = empty_database
     \<lparr>master := all_tables,
      products := [\<lparr>prod_productCode = ''S1'', prod_productName = ''Model T''\<rparr>,
                   \<lparr>prod_productCode = ''S2'', prod_productName = ''Model T''\<rparr>],
      orderdetails := [\<lparr>od_orderNumber = 1, od_productCode = ''S1'', od_quantityOrdered = 5\<rparr>,
                       \<lparr>od_orderNumber = 2, od_productCode = ''S2'', od_quantityOrdered = 7\<rparr>]\<rparr>"

section \<open>Running the script\<close>

lemma exec_append:
  "exec (cs @ ds) s = (case exec cs s of (None, s') \<Rightarrow> exec ds s' | (Some e, s') \<Rightarrow> (Some e, s'))"
  by (induction cs arbitrary: s) (auto split: sum.splits)

lemma step_Inr_iff:
  "step cast n s = Inr s' \<longleftrightarrow>
     conn_open s \<and> find (\<lambda>t. t \<notin> set (master (conn_db s))) (tables_of n) = None \<and>
     s' = s\<lparr>dfs := (dfs s)(n \<mapsto> frame cast n (conn_db s))\<rparr>"
  by (auto simp: step_def read_sql_def query_def split: sum.splits option.splits)

lemma step_conn: "step cast n s = Inr s' \<Longrightarrow> conn_db s' = conn_db s \<and> conn_open s' = conn_open s"
  by (auto simp: step_Inr_iff)

lemma run_steps_conn:
  "run_steps cast ns s = (r, s') \<Longrightarrow> conn_db s' = conn_db s \<and> conn_open s' = conn_open s"
proof (induction ns arbitrary: s)
  case Nil
  then show ?case by (simp add: run_steps_def)
next
  case (Cons n ns)
  show ?case
  proof (cases "step cast n s")
    case (Inl e)
    with Cons.prems show ?thesis by (simp add: run_steps_def)
  next
    case (Inr t)
    with Cons.prems have "run_steps cast ns t = (r, s')" by (simp add: run_steps_def)
    from Cons.IH[OF this] step_conn[OF Inr] show ?thesis by simp
  qed
qed

lemma run_steps_success:
  "run_steps cast ns s = (None, s') \<longleftrightarrow>
     (ns = [] \<or> steps_ok ns s) \<and>
     s' = s\<lparr>dfs := (\<lambda>n. if n \<in> set ns then Some (frame cast n (conn_db s)) else dfs s n)\<rparr>"
proof (induction ns arbitrary: s)
  case Nil
  then show ?case by (auto simp: run_steps_def)
next
  case (Cons n ns)
  show ?case
  proof (cases "step cast n s")
    case (Inl e)
    then have "\<not> steps_ok (n # ns) s"
      by (auto simp: steps_ok_def step_def read_sql_def query_def split: sum.splits option.splits if_splits)
    with Inl show ?thesis by (simp add: run_steps_def)
  next
    case (Inr t)
    then have t: "conn_open s" "find (\<lambda>t. t \<notin> set (master (conn_db s))) (tables_of n) = None"
      "t = s\<lparr>dfs := (dfs s)(n \<mapsto> frame cast n (conn_db s))\<rparr>"
      by (auto simp: step_Inr_iff)
    have "run_steps cast (n # ns) s = run_steps cast ns t"
      using Inr by (simp add: run_steps_def)
    then show ?thesis
      using Cons.IH[of t] t
      by (auto simp: steps_ok_def fun_eq_iff intro!: py_state.equality)
  qed
qed

lemma stmt_conn:
  "stmt_master s = Inr s' \<Longrightarrow> conn_open s' = conn_open s"
  "stmt_tables s = Inr s' \<Longrightarrow> conn_open s' = conn_open s"
  "stmt_print s = Inr s' \<Longrightarrow> conn_open s' = conn_open s"
  by (auto simp: stmt_master_def stmt_tables_def stmt_print_def split: sum.splits option.splits)

lemma exec_keeps_open:
  "(\<forall>c\<in>set cs. \<forall>s s'. c s = Inr s' \<longrightarrow> conn_open s' = conn_open s) \<Longrightarrow>
   exec cs s = (r, s') \<Longrightarrow> conn_open s' = conn_open s"
proof (induction cs arbitrary: s)
  case Nil
  then show ?case by simp
next
  case (Cons c cs)
  show ?case
  proof (cases "c s")
    case (Inl e)
    with Cons.prems(2) show ?thesis by simp
  next
    case (Inr t)
    with Cons.prems(2) have "exec cs t = (r, s')" by simp
    moreover have "\<forall>c\<in>set cs. \<forall>s s'. c s = Inr s' \<longrightarrow> conn_open s' = conn_open s"
      using Cons.prems(1) by simp
    ultimately have "conn_open s' = conn_open t"
      using Cons.IH by blast
    moreover have "conn_open t = conn_open s"
      using Cons.prems(1) Inr by simp
    ultimately show ?thesis by simp
  qed
qed

lemma queries_keep_open:
  "exec (queries cast) s = (r, s') \<Longrightarrow> conn_open s' = conn_open s"
  by (erule exec_keeps_open[rotated])
     (auto simp: queries_def dest: stmt_conn step_conn)

lemma script_conn:
  assumes "exec (script cast) s = (r, s')" and "conn_open s"
  shows "conn_open s' \<longleftrightarrow> r \<noteq> None"
proof -
  have sc: "script cast = queries cast @ [stmt_close]"
    by (simp add: script_def queries_def)
  obtain r1 s1 where q: "exec (queries cast) s = (r1, s1)" by (cases "exec (queries cast) s")
  then have o: "conn_open s1" using queries_keep_open assms(2) by blast
  show ?thesis
  proof (cases r1)
    case None
    with q assms(1) have "r = None" "s' = s1\<lparr>conn_open := False\<rparr>"
      by (auto simp: sc exec_append stmt_close_def)
    then show ?thesis by simp
  next
    case (Some e)
    with q assms(1) have "r = Some e" "s' = s1"
      by (auto simp: sc exec_append)
    with o show ?thesis by simp
  qed
qed

subsection \<open>Closing the connection\<close>

text \<open>
  C1, as the script has it. \<^verbatim>\<open>conn.close()\<close> is the last statement and nothing catches an
  exception: once the connection is open, it is closed at the end of the run exactly
  when no statement raised. A run that ends in an exception ends with the connection
  open.
\<close>

theorem close_reached_iff_no_exception:
  "final (main cast argv environ env) = Some s \<Longrightarrow>
     conn_open s \<longleftrightarrow> raised (main cast argv environ env) \<noteq> None"
proof -
  assume f: "final (main cast argv environ env) = Some s"
  then obtain db env' where c: "sqlite3_connect ''data.sqlite'' env = Inr (db, env')"
    by (auto simp: main_def split: sum.splits)
  obtain r t where e: "exec (script cast) (initial_state db) = (r, t)"
    by (cases "exec (script cast) (initial_state db)")
  from c e f have "t = s" "raised (main cast argv environ env) = r"
    by (auto simp: main_def)
  moreover have "conn_open (initial_state db)" by (simp add: initial_state_def)
  ultimately show ?thesis using script_conn[OF e] by simp
qed

text \<open>C1 on a database that has every table: the run ends without exception, closed.\<close>

theorem close_reached_iff_no_exception_witness:
  "map_option conn_open (final (main cast_whole [] Map.empty dir_with_offices)) = Some False \<and>
   raised (main cast_whole [] Map.empty dir_with_offices) = None"
proof -
  have c: "map_option conn_open (final (main cast_whole [] Map.empty dir_with_offices)) = Some False"
    by code_simp
  then obtain s where s: "final (main cast_whole [] Map.empty dir_with_offices) = Some s"
    and o: "\<not> conn_open s"
    by auto
  from close_reached_iff_no_exception[OF s] o c show ?thesis by simp
qed

text \<open>
  C1 as stated fails where \<^verbatim>\<open>data.sqlite\<close> does not exist: \<^verbatim>\<open>connect\<close> succeeds on a new
  empty database, step 1 raises, and the run ends with the connection open.
\<close>

theorem leak_counterexample:
  "raised (main cast_whole [] Map.empty fresh_directory)
     = Some (DatabaseError ''no such table: employees'') \<and>
   map_option conn_open (final (main cast_whole [] Map.empty fresh_directory)) = Some True"
  by code_simp

subsection \<open>A failing step\<close>

text \<open>
  C2, as the script has it. A step that raises ends the run of the steps: the steps
  before it have bound their variables, the state is the one the failing step found,
  and no later step has run (every other variable is as it was before the first step).
\<close>

theorem failing_step_ends_run:
  "run_steps cast ns s = (Some e, s') \<Longrightarrow>
     \<exists>pre n post. ns = pre @ n # post \<and> run_steps cast pre s = (None, s') \<and>
        step cast n s' = Inl e \<and>
        (\<forall>j\<in>set pre. dfs s' j \<noteq> None) \<and> (\<forall>j. j \<notin> set pre \<longrightarrow> dfs s' j = dfs s j)"
proof (induction ns arbitrary: s)
  case Nil
  then show ?case by (simp add: run_steps_def)
next
  case (Cons n ns)
  show ?case
  proof (cases "step cast n s")
    case (Inl e')
    with Cons.prems have "e' = e" "s' = s" by (auto simp: run_steps_def)
    with Inl have "n # ns = [] @ n # ns \<and> run_steps cast [] s = (None, s') \<and>
        step cast n s' = Inl e \<and>
        (\<forall>j\<in>set []. dfs s' j \<noteq> None) \<and> (\<forall>j. j \<notin> set [] \<longrightarrow> dfs s' j = dfs s j)"
      by (simp add: run_steps_def)
    then show ?thesis by blast
  next
    case (Inr t)
    with Cons.prems have "run_steps cast ns t = (Some e, s')" by (simp add: run_steps_def)
    from Cons.IH[OF this] obtain pre m post where
      p: "ns = pre @ m # post" "run_steps cast pre t = (None, s')" "step cast m s' = Inl e"
      by blast
    have r: "run_steps cast (n # pre) s = (None, s')"
      using Inr p(2) by (simp add: run_steps_def)
    then have "s' = s\<lparr>dfs := (\<lambda>j. if j \<in> set (n # pre) then Some (frame cast j (conn_db s)) else dfs s j)\<rparr>"
      by (simp only: run_steps_success)
    then have d: "(\<forall>j\<in>set (n # pre). dfs s' j \<noteq> None) \<and> (\<forall>j. j \<notin> set (n # pre) \<longrightarrow> dfs s' j = dfs s j)"
      by simp
    have "n # ns = (n # pre) @ m # post" using p(1) by simp
    with r p(3) d show ?thesis by blast
  qed
qed

text \<open>C2 on the database without \<^verbatim>\<open>payments\<close>: step 5 raises.\<close>

theorem failing_step_ends_run_witness:
  "fst (run_steps cast_whole all_steps (initial_state db_without_payments))
     = Some (DatabaseError ''no such table: payments'') \<and>
   (\<exists>pre n post. all_steps = pre @ n # post \<and>
      run_steps cast_whole pre (initial_state db_without_payments)
        = (None, snd (run_steps cast_whole all_steps (initial_state db_without_payments))) \<and>
      step cast_whole n (snd (run_steps cast_whole all_steps (initial_state db_without_payments)))
        = Inl (DatabaseError ''no such table: payments'') \<and>
      (\<forall>j\<in>set pre. dfs (snd (run_steps cast_whole all_steps (initial_state db_without_payments))) j \<noteq> None) \<and>
      (\<forall>j. j \<notin> set pre \<longrightarrow>
         dfs (snd (run_steps cast_whole all_steps (initial_state db_without_payments))) j
           = dfs (initial_state db_without_payments) j))"
proof -
  have h: "fst (run_steps cast_whole all_steps (initial_state db_without_payments))
     = Some (DatabaseError ''no such table: payments'')"
    by code_simp
  then have "run_steps cast_whole all_steps (initial_state db_without_payments)
     = (Some (DatabaseError ''no such table: payments''),
        snd (run_steps cast_whole all_steps (initial_state db_without_payments)))"
    by (simp add: prod_eq_iff)
  from failing_step_ends_run[OF this] h show ?thesis by simp
qed

text \<open>
  C2 as stated fails on the same database: step 5 raises, and step 6, which would
  succeed, never runs: \<^verbatim>\<open>df_credit\<close> is unbound at the end.
\<close>

theorem later_steps_skipped_counterexample:
  "raised (main cast_whole [] Map.empty dir_without_payments)
     = Some (DatabaseError ''no such table: payments'') \<and>
   map_option (\<lambda>s. dfs s Df_credit) (final (main cast_whole [] Map.empty dir_without_payments))
     = Some None \<and>
   \<not> isl (query cast_whole Df_credit db_without_payments)"
  by code_simp

subsection \<open>Opening the database\<close>

text \<open>
  C3, as \<^verbatim>\<open>sqlite3.connect\<close> has it. When \<^verbatim>\<open>data.sqlite\<close> cannot be opened, or is
  missing and cannot be created, \<^verbatim>\<open>connect\<close> raises \<^verbatim>\<open>OperationalError\<close> and the run ends
  there, before any statement. When it is missing and can be created, \<^verbatim>\<open>connect\<close>
  returns a connection to a new empty database; the run then ends at step 1, which
  finds no table \<^verbatim>\<open>employees\<close>.
\<close>

theorem connect_outcome:
  "(files env ''data.sqlite'' = Some Unreadable \<or>
    files env ''data.sqlite'' = None \<and> \<not> cwd_writable env \<longrightarrow>
      sqlite3_connect ''data.sqlite'' env = Inl (OperationalError ''unable to open database file'') \<and>
      main cast argv environ env =
        \<lparr>raised = Some (OperationalError ''unable to open database file''), final = None,
         env_after = env\<rparr>) \<and>
   (files env ''data.sqlite'' = None \<and> cwd_writable env \<longrightarrow>
      sqlite3_connect ''data.sqlite'' env =
        Inr (empty_database,
             env\<lparr>files := (files env)(''data.sqlite'' \<mapsto> Sqlite_file empty_database)\<rparr>) \<and>
      raised (main cast argv environ env) = Some (DatabaseError ''no such table: employees'') \<and>
      map_option dfs (final (main cast argv environ env)) = Some Map.empty)"
  by (auto simp: main_def sqlite3_connect_def script_def all_steps_def
      stmt_master_def stmt_tables_def stmt_print_def read_sql_def initial_state_def step_def
      query_def empty_database_def)

text \<open>C3 in a directory where the file cannot be opened, and in one where it is missing.\<close>

theorem connect_outcome_witness:
  "files locked_directory ''data.sqlite'' = Some Unreadable \<and>
   sqlite3_connect ''data.sqlite'' locked_directory
     = Inl (OperationalError ''unable to open database file'') \<and>
   raised (main cast_whole [] Map.empty locked_directory)
     = Some (OperationalError ''unable to open database file'') \<and>
   files fresh_directory ''data.sqlite'' = None \<and> cwd_writable fresh_directory \<and>
   raised (main cast_whole [] Map.empty fresh_directory)
     = Some (DatabaseError ''no such table: employees'')"
proof -
  have a: "files locked_directory ''data.sqlite'' = Some Unreadable"
    by (simp add: locked_directory_def)
  have b: "files fresh_directory ''data.sqlite'' = None \<and> cwd_writable fresh_directory"
    by (simp add: fresh_directory_def)
  from a connect_outcome[where env = locked_directory and cast = cast_whole and argv = "[]"
      and environ = Map.empty]
  have "sqlite3_connect ''data.sqlite'' locked_directory
          = Inl (OperationalError ''unable to open database file'') \<and>
        raised (main cast_whole [] Map.empty locked_directory)
          = Some (OperationalError ''unable to open database file'')"
    by simp
  moreover from b connect_outcome[where env = fresh_directory and cast = cast_whole and argv = "[]"
      and environ = Map.empty]
  have "raised (main cast_whole [] Map.empty fresh_directory)
          = Some (DatabaseError ''no such table: employees'')"
    by blast
  ultimately show ?thesis using a b by blast
qed

text \<open>C3 as stated fails on a missing file in a writable directory: no error is raised.\<close>

theorem missing_file_counterexample:
  "files fresh_directory ''data.sqlite'' = None \<and>
   sqlite3_connect ''data.sqlite'' fresh_directory
     = Inr (empty_database,
            fresh_directory\<lparr>files := (files fresh_directory)(''data.sqlite'' \<mapsto> Sqlite_file empty_database)\<rparr>)"
  by (simp add: sqlite3_connect_def fresh_directory_def)



subsection \<open>Read-only steps\<close>

text \<open>
  C9. A step leaves the database behind the connection as it found it; so does any run
  of steps, after which every step gives the result (table or error) it gives before.
  When the ten steps succeed in source order, they succeed in every order and leave the
  same tables in the same variables.
\<close>

theorem steps_read_only_and_commute:
  "(step cast n s = Inr s1 \<longrightarrow> conn_db s1 = conn_db s) \<and>
   (run_steps cast ms s = (r, s2) \<longrightarrow>
      conn_db s2 = conn_db s \<and> read_sql (query cast n) s2 = read_sql (query cast n) s) \<and>
   (mset ns = mset all_steps \<longrightarrow> run_steps cast all_steps s = (None, s3) \<longrightarrow>
      run_steps cast ns s = (None, s3))"
proof -
  have a: "step cast n s = Inr s1 \<longrightarrow> conn_db s1 = conn_db s"
    by (simp add: step_conn)
  have b: "run_steps cast ms s = (r, s2) \<longrightarrow>
      conn_db s2 = conn_db s \<and> read_sql (query cast n) s2 = read_sql (query cast n) s"
    by (auto simp: read_sql_def dest: run_steps_conn)
  have c: "run_steps cast ns s = (None, s3)"
    if m: "mset ns = mset all_steps" and r: "run_steps cast all_steps s = (None, s3)"
  proof -
    from m have e: "set ns = set all_steps" by (rule mset_eq_setD)
    from m have "ns \<noteq> []" by (auto simp: all_steps_def)
    moreover have "all_steps \<noteq> []" by (simp add: all_steps_def)
    ultimately show ?thesis
      using r e by (simp add: run_steps_success steps_ok_def)
  qed
  from a b c show ?thesis by blast
qed

text \<open>C9 with the ten steps in reverse order.\<close>

theorem steps_read_only_and_commute_witness:
  "mset (rev all_steps) = mset all_steps \<and>
   fst (run_steps cast_whole all_steps (initial_state offices_fixture)) = None \<and>
   run_steps cast_whole (rev all_steps) (initial_state offices_fixture)
     = run_steps cast_whole all_steps (initial_state offices_fixture)"
proof -
  let ?s = "initial_state offices_fixture"
  have m: "mset (rev all_steps) = mset all_steps" by simp
  have n: "fst (run_steps cast_whole all_steps ?s) = None" by code_simp
  then have r: "run_steps cast_whole all_steps ?s = (None, snd (run_steps cast_whole all_steps ?s))"
    by (simp add: prod_eq_iff)
  from steps_read_only_and_commute[where cast = cast_whole and ns = "rev all_steps" and s = ?s
      and ?s3.0 = "snd (run_steps cast_whole all_steps ?s)"] m r
  have "run_steps cast_whole (rev all_steps) ?s = (None, snd (run_steps cast_whole all_steps ?s))"
    by blast
  with m n r show ?thesis by simp
qed

section \<open>Joins, groups and orderings\<close>

subsection \<open>Step 2\<close>

lemma left_join_None:
  "(x, None) \<in> set (left_join xs ys on) \<longleftrightarrow> x \<in> set xs \<and> (\<forall>y\<in>set ys. \<not> on x y)"
  by (auto simp: left_join_def Let_def filter_empty_conv)

lemma left_join_Some:
  "(x, Some y) \<in> set (left_join xs ys on) \<longleftrightarrow> x \<in> set xs \<and> y \<in> set ys \<and> on x y"
  by (auto simp: left_join_def Let_def filter_empty_conv)

lemma set_sql_zero_emp:
  "set (sql_zero_emp db) =
     (\<lambda>off. (off_officeCode off, off_city off, off_state off, off_country off)) `
       {off \<in> set (offices db). \<forall>e\<in>set (employees db). emp_officeCode e \<noteq> Some (off_officeCode off)}"
proof -
  have "set (sql_zero_emp db) =
     (\<lambda>off. (off_officeCode off, off_city off, off_state off, off_country off)) `
       {off. (off, None) \<in> set (left_join (offices db) (employees db)
                    (\<lambda>off e. Some (off_officeCode off) = emp_officeCode e))}"
    by (auto simp: sql_zero_emp_def image_iff)
  then show ?thesis by (auto simp: left_join_None eq_commute)
qed

text \<open>
  C7. Every row of step 2 is an office of the fixture whose code no employee
  references, and every office whose row is absent has an employee that references its
  code.
\<close>

theorem zero_emp_exact:
  "(\<forall>(code, city, st, country) \<in> set (sql_zero_emp db).
      (\<exists>off\<in>set (offices db). off_officeCode off = code) \<and>
      (\<forall>e\<in>set (employees db). emp_officeCode e \<noteq> Some code)) \<and>
   (\<forall>off\<in>set (offices db).
      (off_officeCode off, off_city off, off_state off, off_country off) \<notin> set (sql_zero_emp db) \<longrightarrow>
      (\<exists>e\<in>set (employees db). emp_officeCode e = Some (off_officeCode off)))"
  unfolding set_sql_zero_emp by auto

text \<open>C7 on three offices: Paris and Tokyo are returned, Boston has employees.\<close>

theorem zero_emp_exact_witness:
  "sql_zero_emp offices_fixture
     = [(''2'', ''Paris'', [], ''France''), (''3'', ''Tokyo'', [], ''Japan'')] \<and>
   filter (\<lambda>e. emp_officeCode e = Some ''2'') (employees offices_fixture) = [] \<and>
   (\<exists>e\<in>set (employees offices_fixture). emp_officeCode e = Some ''1'')"
proof -
  let ?boston = "\<lparr>off_officeCode = ''1'', off_city = ''Boston'', off_state = ''MA'',
                  off_country = ''USA''\<rparr>"
  have r: "sql_zero_emp offices_fixture
     = [(''2'', ''Paris'', [], ''France''), (''3'', ''Tokyo'', [], ''Japan'')]"
    by code_simp
  have b: "?boston \<in> set (offices offices_fixture)"
    by (simp add: offices_fixture_def)
  have a: "(off_officeCode ?boston, off_city ?boston, off_state ?boston, off_country ?boston)
             \<notin> set (sql_zero_emp offices_fixture)"
    by (simp add: r)
  have p: "(''2'', ''Paris'', [], ''France'') \<in> set (sql_zero_emp offices_fixture)"
    by (simp add: r)
  from zero_emp_exact[of offices_fixture] p
  have "\<forall>e\<in>set (employees offices_fixture). emp_officeCode e \<noteq> Some ''2''"
    by blast
  then have "filter (\<lambda>e. emp_officeCode e = Some ''2'') (employees offices_fixture) = []"
    by (simp add: filter_empty_conv)
  moreover from zero_emp_exact[of offices_fixture] a b
  have "\<exists>e\<in>set (employees offices_fixture). emp_officeCode e = Some (off_officeCode ?boston)"
    by blast
  ultimately show ?thesis using r by simp
qed

subsection \<open>Step 5\<close>

lemma sorted_order_by_desc:
  "sorted_wrt (\<lambda>a b. key a \<ge> key b) (order_by_desc key rs)"
proof -
  have "sorted (map key (sort_key key (rev rs)))" by simp
  then have "sorted_wrt (\<lambda>x y. key x \<le> key y) (sort_key key (rev rs))"
    by (simp only: sorted_map)
  then show ?thesis
    by (simp add: order_by_desc_def sorted_wrt_rev)
qed



lemma set_order_by_desc: "set (order_by_desc key rs) = set rs"
  by (simp add: order_by_desc_def)





subsection \<open>Step 10\<close>

lemma set_group_by:
  "set (group_by key rs) = (\<lambda>k. (k, filter (\<lambda>r. key r = k) rs)) ` key ` set rs"
  by (simp add: group_by_def)


lemma group_by_mem:
  "(k, g) \<in> set (group_by key rs) \<longleftrightarrow> k \<in> key ` set rs \<and> g = filter (\<lambda>r. key r = k) rs"
  by (auto simp: set_group_by)

lemma purchasers_group:
  "set (map (\<lambda>(od, ordr). ord_customerNumber ordr)
          (filter (\<lambda>r. (case r of (od, ordr) \<Rightarrow> od_productCode od) = code) (detail_orders db)))
   = purchasers db code"
  unfolding purchasers_def by (auto split: if_splits)

lemma low_demand_iff:
  "code \<in> set (low_demand_products db) \<longleftrightarrow>
     code \<in> od_productCode ` fst ` set (detail_orders db) \<and> card (purchasers db code) < 20"
proof -
  let ?key = "\<lambda>(od, ordr). od_productCode od"
  have c: "count_distinct (map (\<lambda>(od, ordr). ord_customerNumber ordr)
             (filter (\<lambda>r. ?key r = code) (detail_orders db))) = card (purchasers db code)"
    by (simp only: count_distinct_def length_remdups_card_conv purchasers_group)
  have "code \<in> set (low_demand_products db) \<longleftrightarrow>
     (\<exists>g. (code, g) \<in> set (group_by ?key (detail_orders db)) \<and>
          count_distinct (map (\<lambda>(od, ordr). ord_customerNumber ordr) g) < 20)"
    by (auto simp: low_demand_products_def)
  also have "\<dots> \<longleftrightarrow> code \<in> ?key ` set (detail_orders db) \<and> card (purchasers db code) < 20"
    using c by (auto simp only: group_by_mem)
  also have "?key ` set (detail_orders db) = od_productCode ` fst ` set (detail_orders db)"
    by (simp add: image_image case_prod_unfold)
  finally show ?thesis .
qed

text \<open>
  C5. Every product of the low-demand set was purchased by fewer than 20 distinct
  customers. A second run of step 10, on the state the first run left, binds the same
  data frame again: the rows of the statement on the database, in the same order.
\<close>

theorem low_demand_under_20_and_rerun:
  "(\<forall>code\<in>set (low_demand_products db). card (purchasers db code) < 20) \<and>
   (step cast Df_under_20 s = Inr s1 \<longrightarrow>
      step cast Df_under_20 s1 = Inr s1 \<and>
      dfs s1 Df_under_20 = Some (frame cast Df_under_20 (conn_db s)))"
proof -
  have "step cast Df_under_20 s1 = Inr s1 \<and>
      dfs s1 Df_under_20 = Some (frame cast Df_under_20 (conn_db s))"
    if "step cast Df_under_20 s = Inr s1"
    using that
    by (auto simp: step_def read_sql_def query_def split: sum.splits if_splits option.splits)
  then show ?thesis by (simp add: low_demand_iff)
qed

text \<open>C5 on twenty customers: \<^verbatim>\<open>S20\<close> is low-demand, \<^verbatim>\<open>S10\<close> with its twenty purchasers is
  not.\<close>

theorem low_demand_under_20_and_rerun_witness:
  "low_demand_products demand_fixture = [''S20''] \<and>
   card (purchasers demand_fixture ''S20'') < 20 \<and>
   card (purchasers demand_fixture ''S10'') = 20 \<and>
   step cast_whole Df_under_20 (initial_state demand_fixture) = Inr under_20_state \<and>
   step cast_whole Df_under_20 under_20_state = Inr under_20_state"
proof -
  have l: "low_demand_products demand_fixture = [''S20'']" by code_simp
  have t: "card (purchasers demand_fixture ''S10'') = 20" by code_simp
  have s: "step cast_whole Df_under_20 (initial_state demand_fixture) = Inr under_20_state"
    by (simp add: step_def read_sql_def query_def initial_state_def under_20_state_def
        demand_fixture_def all_tables_def)
  from low_demand_under_20_and_rerun[of demand_fixture cast_whole "initial_state demand_fixture"
      under_20_state] l s t
  show ?thesis by simp
qed

subsection \<open>Step 6\<close>

lemma concat_map_if:
  "concat (map (\<lambda>x. if P x then [f x] else []) xs) = map f (filter P xs)"
  by (induction xs) auto


























subsection \<open>Step 7\<close>

text \<open>
  The rows of step 7 are in descending order of \<^verbatim>\<open>totalunits\<close>. When no two products
  share a name, every product with an order detail has its row: its name, the number of
  order details that reference it and the sum of their quantities.
\<close>

lemma product_sold_sorted:
  "sorted_wrt (\<lambda>(name, numorders, totalunits) (name', numorders', totalunits').
                 totalunits \<ge> totalunits') (sql_product_sold db)"
proof -
  have "(\<lambda>r r'. (case r of (name, numorders, totalunits) \<Rightarrow> totalunits)
                 \<ge> (case r' of (name, numorders, totalunits) \<Rightarrow> (totalunits::int)))
        = (\<lambda>(name :: string, numorders :: nat, totalunits) (name' :: string, numorders' :: nat, totalunits').
                 totalunits \<ge> totalunits')"
    by (auto simp: fun_eq_iff)
  then show ?thesis
    unfolding sql_product_sold_def
    using sorted_order_by_desc[of "\<lambda>(name :: string, numorders :: nat, totalunits :: int). totalunits"]
    by simp
qed

lemma product_sold_join_alt:
  "product_sold_join db =
     concat (map (\<lambda>p. map (Pair p) (details_of db (prod_productCode p))) (products db))"
  by (simp add: product_sold_join_def details_of_def concat_map_if)

lemma filter_name_rows:
  "distinct (map prod_productName ps) \<Longrightarrow> p \<in> set ps \<Longrightarrow>
   filter (\<lambda>(q, od). prod_productName q = prod_productName p)
     (concat (map (\<lambda>q. map (Pair q) (details_of db (prod_productCode q))) ps))
   = map (Pair p) (details_of db (prod_productCode p))"
proof (induction ps)
  case Nil
  then show ?case by simp
next
  case (Cons q ps)
  show ?case
  proof (cases "q = p")
    case True
    with Cons.prems(1) have "\<forall>r\<in>set ps. prod_productName r \<noteq> prod_productName p"
      by (auto simp: image_iff)
    then have "filter (\<lambda>(q, od). prod_productName q = prod_productName p)
       (concat (map (\<lambda>q. map (Pair q) (details_of db (prod_productCode q))) ps)) = []"
      by (auto simp: filter_empty_conv)
    with True show ?thesis by (simp add: filter_map comp_def)
  next
    case False
    with Cons.prems have p: "p \<in> set ps" and d: "distinct (map prod_productName ps)"
      and n: "prod_productName q \<noteq> prod_productName p"
      by auto
    from Cons.IH[OF d p] n show ?thesis by (simp add: filter_map comp_def)
  qed
qed

lemma product_sold_when_names_distinct:
  assumes "distinct (map prod_productName (products db))"
    and "p \<in> set (products db)"
    and "details_of db (prod_productCode p) \<noteq> []"
  shows "(prod_productName p,
          length (details_of db (prod_productCode p)),
          sum_list (map od_quantityOrdered (details_of db (prod_productCode p))))
         \<in> set (sql_product_sold db)"
proof -
  let ?key = "\<lambda>(p, od). prod_productName p"
  let ?ods = "details_of db (prod_productCode p)"
  let ?g = "filter (\<lambda>r. ?key r = prod_productName p) (product_sold_join db)"
  have e: "(\<lambda>r. ?key r = prod_productName p) = (\<lambda>(q, od). prod_productName q = prod_productName p)"
    by (auto simp: fun_eq_iff)
  have g: "?g = map (Pair p) ?ods"
    unfolding e product_sold_join_alt by (rule filter_name_rows[OF assms(1,2)])
  from assms(3) obtain od where "od \<in> set ?ods" by (cases ?ods) auto
  with g have "(p, od) \<in> set (product_sold_join db)"
    by (metis (no_types, lifting) filter_is_subset image_eqI list.set_map subsetD)
  then have "prod_productName p \<in> ?key ` set (product_sold_join db)"
    by force
  then have "(prod_productName p, ?g) \<in> set (group_by ?key (product_sold_join db))"
    by (simp add: group_by_mem)
  then have "(prod_productName p, length ?g, sum_list (map (\<lambda>(p, od). od_quantityOrdered od) ?g))
     \<in> set [(name, length g, sum_list (map (\<lambda>(p, od). od_quantityOrdered od) g)).
          (name, g) \<leftarrow> group_by ?key (product_sold_join db)]"
    by force
  then show ?thesis
    by (simp add: sql_product_sold_def set_order_by_desc g comp_def)
qed

text \<open>
  C8 at two products that share a name. Step 7 groups on \<^verbatim>\<open>productName\<close> alone (step 8
  groups on name and code): the two products, each referenced by one order detail, come
  out as one row with \<^verbatim>\<open>numorders\<close> 2 and \<^verbatim>\<open>totalunits\<close> 12, the counts of neither.
\<close>

theorem product_sold_merges_same_name:
  "map prod_productCode (products same_name_fixture) = [''S1'', ''S2''] \<and>
   map od_quantityOrdered
     (filter (\<lambda>od. od_productCode od = ''S1'') (orderdetails same_name_fixture)) = [5] \<and>
   map od_quantityOrdered
     (filter (\<lambda>od. od_productCode od = ''S2'') (orderdetails same_name_fixture)) = [7] \<and>
   sql_product_sold same_name_fixture = [(''Model T'', 2, 12)]"
  by code_simp

end
